theory Spec2Isabelle
  imports Main "HOL-Library.AList" "HOL-Library.Word"
begin

unbundle bit_operations_syntax

section \<open>The syntax tree and the symbols of the TypeScript compiler API\<close>

text \<open>
  The two source files work on nodes of the TypeScript syntax tree and on symbols of
  its type checker. Only the node kinds that the code tests for are kept apart; every
  other kind is an \<open>Other\<close> node. An identifier carries its position, since the
  checker resolves a node, not a text; the name of a declaration is kept as its text. A function body (\<open>ts.Block\<close>) is the list of
  its immediate statements (\<open>body.statements\<close>); an arrow function has a concise
  body (an expression) or a block.
\<close>

type_synonym sourceFile = nat

datatype expr =
    Identifier nat string
  | ParenthesizedExpression expr
  | CallExpression expr "expr list"
  | FunctionExpression "string option" "string list" "stmt list"
  | ArrowFunction "string list" "expr + stmt list"
  | ArrayLiteralExpression "expr list"
  | ObjectLiteralExpression "(string \<times> expr) list"
  | OtherExpression nat
and stmt =
    ReturnStatement "expr option"
  | IfStatement expr stmt "stmt option"
  | Block "stmt list"
  | ExpressionStatement expr
  | FunctionDeclarationStatement string "string list" "stmt list"
  | OtherStatement nat

text \<open>
  A declaration knows the source file it stands in (\<open>getSourceFile()\<close>) and may have
  a name: a class declaration and a function declaration can be unnamed
  (\<open>export default class {}\<close>).
\<close>

datatype Declaration =
    VariableDeclaration sourceFile string "expr option"
  | ClassDeclaration sourceFile "string option"
  | FunctionDeclaration sourceFile "string option" "string list" "stmt list"
  | OtherDeclaration sourceFile

fun getSourceFile :: "Declaration \<Rightarrow> sourceFile" where
  "getSourceFile (VariableDeclaration f _ _) = f"
| "getSourceFile (ClassDeclaration f _) = f"
| "getSourceFile (FunctionDeclaration f _ _ _) = f"
| "getSourceFile (OtherDeclaration f) = f"

text \<open>\<open>declaration.name\<close>, which is \<open>undefined\<close> for an unnamed declaration.\<close>

fun declName :: "Declaration \<Rightarrow> string option" where
  "declName (VariableDeclaration _ n _) = Some n"
| "declName (ClassDeclaration _ n) = n"
| "declName (FunctionDeclaration _ n _ _) = n"
| "declName (OtherDeclaration _) = None"

text \<open>
  \<open>ts.Symbol\<close>: the flags are a bit set in a 32-bit integer, the value declaration
  may be missing, and the table of exports (the static properties of a class) may be
  missing. The table is a \<open>Map\<close>; an association list read with \<open>map_of\<close>.
\<close>

datatype symbol =
  Symbol (flags: "32 word") (escapedName: string)
         (valueDeclaration: "Declaration option")
         (exports: "(string \<times> symbol) list option")

definition SymbolFlags_Class :: "32 word" where
  "SymbolFlags_Class = 32"

definition SymbolFlags_Alias :: "32 word" where
  "SymbolFlags_Alias = 2097152"

datatype node = SourceFileNode sourceFile | ExprNode expr

text \<open>
  The type checker, as far as the code calls it: an immutable snapshot of symbol
  resolution.
\<close>

record checker =
  getSymbolAtLocation :: "node \<Rightarrow> symbol option"
  getExportsOfModule :: "symbol \<Rightarrow> symbol list"
  getAliasedSymbol :: "symbol \<Rightarrow> symbol"

section \<open>esm5\_host.ts\<close>

fun isReturnStatement :: "stmt \<Rightarrow> bool" where
  "isReturnStatement (ReturnStatement _) = True"
| "isReturnStatement _ = False"

fun isObjectLiteralExpression :: "expr \<Rightarrow> bool" where
  "isObjectLiteralExpression (ObjectLiteralExpression _) = True"
| "isObjectLiteralExpression _ = False"

text \<open>\<open>body.statements.find(statement => ts.isReturnStatement(statement))\<close>\<close>

definition getReturnStatement :: "stmt list \<Rightarrow> stmt option" where
  "getReturnStatement body = find isReturnStatement body"

text \<open>
  The return statement must have an expression (\<open>return;\<close> has none) and the
  expression must be an identifier.
\<close>

definition getReturnIdentifier :: "stmt list \<Rightarrow> expr option" where
  "getReturnIdentifier body =
     (case getReturnStatement body of
        Some (ReturnStatement (Some (Identifier p t))) \<Rightarrow> Some (Identifier p t)
      | _ \<Rightarrow> None)"

text \<open>
  The initializer must be a parenthesized expression, the expression inside the
  parentheses a call, and the callee of the call a function expression.
\<close>

fun getIifeBody :: "expr option \<Rightarrow> stmt list option" where
  "getIifeBody (Some (ParenthesizedExpression (CallExpression (FunctionExpression n ps body) args))) =
     Some body"
| "getIifeBody _ = None"

text \<open>
  \<open>Esm5ReflectionHost.getClassSymbol\<close>. Every property read of the source is behind
  the test of the node kind that has the property, so the function has no failing
  branch: it returns a symbol or \<open>undefined\<close>.
\<close>

fun getClassSymbol :: "checker \<Rightarrow> Declaration \<Rightarrow> symbol option" where
  "getClassSymbol chk (VariableDeclaration f nm init) =
     (case getIifeBody init of
        Some iifeBody \<Rightarrow>
          (case getReturnIdentifier iifeBody of
             Some innerClassIdentifier \<Rightarrow>
               getSymbolAtLocation chk (ExprNode innerClassIdentifier)
           | None \<Rightarrow> None)
      | None \<Rightarrow> None)"
| "getClassSymbol chk _ = None"

text \<open>
  Modelled from the spec: the constant \<open>CONSTRUCTOR_PARAMS\<close> is declared in
  esm2015\_host.ts, which is not among the sources; the spec and the comment of
  \<open>getConstructorDecorators\<close> name the static property \<open>ctorParameters\<close>.
\<close>

definition CONSTRUCTOR_PARAMS :: string where
  "CONSTRUCTOR_PARAMS = ''ctorParameters''"

text \<open>
  \<open>Esm5ReflectionHost.getConstructorDecorators\<close>. The helper
  \<open>getPropertyValueFromSymbol\<close> (esm2015\_host.ts) and the object-literal reflector
  \<open>reflectObjectLiteral\<close> are not among the sources and are parameters: the first
  gives the expression assigned to a static property, if there is one, the second
  turns an object literal into metadata of some type \<open>'m\<close>.
\<close>

definition getConstructorDecorators ::
  "(symbol \<Rightarrow> expr option) \<Rightarrow> (expr \<Rightarrow> 'm) \<Rightarrow> symbol \<Rightarrow> 'm option list" where
  "getConstructorDecorators getPropertyValueFromSymbol reflectObjectLiteral classSymbol =
     (case exports classSymbol of
        None \<Rightarrow> []
      | Some tbl \<Rightarrow>
          (case map_of tbl CONSTRUCTOR_PARAMS of
             None \<Rightarrow> []
           | Some propSymbol \<Rightarrow>
               (case getPropertyValueFromSymbol propSymbol of
                  Some (FunctionExpression n ps body) \<Rightarrow>
                    (case getReturnStatement body of
                       Some (ReturnStatement (Some (ArrayLiteralExpression elements))) \<Rightarrow>
                         map (\<lambda>element. if isObjectLiteralExpression element
                                         then Some (reflectObjectLiteral element) else None)
                             elements
                     | _ \<Rightarrow> [])
                | _ \<Rightarrow> [])))"

section \<open>esm2015\_parser.ts\<close>

text \<open>
  The exceptions of the JavaScript. The parser itself can only meet the \<open>TypeError\<close>
  of reading a property of \<open>undefined\<close>; the host, as any call, may throw a
  \<open>TypeError\<close> or any other exception, which is kept apart by its name and which the
  parser, having no \<open>try\<close>, lets through as it is.
\<close>

datatype error = TypeError | OtherError string

text \<open>
  Modelled from the spec: the classes \<open>ParsedClass\<close> (parsed\_class.ts) and
  \<open>ParsedFile\<close> (parsed\_file.ts) are not among the sources. A parsed class has a
  name, the handle of its declaration and its decorators; a parsed file has the handle
  of its source file and the sequence of its decorated classes, empty when the file is
  created. The type \<open>'d\<close> is the decorator metadata of the reflection host.
\<close>

record 'd ParsedClass =
  name :: string
  decl :: Declaration
  decorators :: "'d list"

record 'd ParsedFile =
  sourceFile :: sourceFile
  decoratedClasses :: "'d ParsedClass list"

text \<open>
  \<open>NgccReflectionHost.getDecoratorsOfDeclaration\<close> is a parameter of the parser
  (\<open>this.host\<close>). Its result is an array of decorators or \<open>null\<close>; the parser hands
  it \<open>symbol.valueDeclaration\<close> under a cast, which may be \<open>undefined\<close>; and, as
  any call, it may throw.
\<close>

type_synonym 'd host = "Declaration option \<Rightarrow> error + 'd list option"

text \<open>
  \<open>ts.SymbolFlags.Alias & exportSymbol.flags ? this.checker.getAliasedSymbol(exportSymbol)
  : exportSymbol\<close>
\<close>

definition resolveExport :: "checker \<Rightarrow> symbol \<Rightarrow> symbol" where
  "resolveExport chk exportSymbol =
     (if SymbolFlags_Alias AND flags exportSymbol \<noteq> 0
      then getAliasedSymbol chk exportSymbol else exportSymbol)"

definition exportClasses :: "checker \<Rightarrow> symbol \<Rightarrow> symbol list" where
  "exportClasses chk moduleSymbol =
     filter (\<lambda>exportSymbol. flags exportSymbol AND SymbolFlags_Class \<noteq> 0)
       (map (resolveExport chk) (getExportsOfModule chk moduleSymbol))"

definition classDeclarations :: "checker \<Rightarrow> symbol \<Rightarrow> Declaration option list" where
  "classDeclarations chk moduleSymbol = map valueDeclaration (exportClasses chk moduleSymbol)"

text \<open>
  The callback of the second \<open>map\<close>. An array, also the empty one, is truthy in
  JavaScript, so \<open>if (decorators)\<close> tests for \<open>null\<close> only. With decorators present,
  \<open>declaration.name!.text\<close> is read: a \<open>TypeError\<close> when the declaration or its name is
  \<open>undefined\<close>.
\<close>

definition parseClass :: "'d host \<Rightarrow> Declaration option \<Rightarrow> error + 'd ParsedClass option" where
  "parseClass host declaration_opt =
     (case host declaration_opt of
        Inl e \<Rightarrow> Inl e
      | Inr None \<Rightarrow> Inr None
      | Inr (Some ds) \<Rightarrow>
          (case declaration_opt of
             None \<Rightarrow> Inl TypeError
           | Some d \<Rightarrow>
               (case declName d of
                  None \<Rightarrow> Inl TypeError
                | Some n \<Rightarrow> Inr (Some \<lparr>name = n, decl = d, decorators = ds\<rparr>))))"

text \<open>\<open>Array.prototype.map\<close> with a callback that may throw: the first failure ends it.\<close>

fun mapE :: "('a \<Rightarrow> error + 'b) \<Rightarrow> 'a list \<Rightarrow> error + 'b list" where
  "mapE f [] = Inr []"
| "mapE f (x # xs) =
     (case f x of
        Inl e \<Rightarrow> Inl e
      | Inr y \<Rightarrow> (case mapE f xs of Inl e \<Rightarrow> Inl e | Inr ys \<Rightarrow> Inr (y # ys)))"

text \<open>The classes that survive \<open>.filter(decoratedClass => decoratedClass)\<close>, in order.\<close>

definition decoratedClassesOf ::
  "checker \<Rightarrow> 'd host \<Rightarrow> symbol \<Rightarrow> error + 'd ParsedClass list" where
  "decoratedClassesOf chk host moduleSymbol =
     (case mapE (parseClass host) (classDeclarations chk moduleSymbol) of
        Inl e \<Rightarrow> Inl e
      | Inr rs \<Rightarrow> Inr (List.map_filter (\<lambda>r. r) rs))"

text \<open>
  The body of the \<open>forEach\<close>. The \<open>Map\<close> from source files to parsed files keeps its
  keys in insertion order: an association list, where \<open>AList.update\<close> replaces the
  value of a key in place and appends a new key at the end, as \<open>Map.set\<close> does. The
  \<open>push\<close> changes the parsed file that the map holds. \<open>map.get(file)!\<close> would be
  \<open>undefined\<close> for a missing key, and reading \<open>decoratedClasses\<close> of it a
  \<open>TypeError\<close>.
\<close>

definition addClass ::
  "(sourceFile \<times> 'd ParsedFile) list \<Rightarrow> 'd ParsedClass \<Rightarrow> error + (sourceFile \<times> 'd ParsedFile) list" where
  "addClass m clazz =
     (let file = getSourceFile (decl clazz);
          m1 = (if map_of m file = None
                then AList.update file \<lparr>sourceFile = file, decoratedClasses = []\<rparr> m
                else m)
      in case map_of m1 file of
           None \<Rightarrow> Inl TypeError
         | Some pf \<Rightarrow>
             Inr (AList.update file (pf\<lparr>decoratedClasses := decoratedClasses pf @ [clazz]\<rparr>) m1))"

text \<open>The map in which every parsed file of a sequence stands under its own source file.\<close>

definition keyed :: "'d ParsedFile list \<Rightarrow> (sourceFile \<times> 'd ParsedFile) list" where
  "keyed pfs = map (\<lambda>pf. (sourceFile pf, pf)) pfs"

text \<open>\<open>Array.prototype.forEach\<close> over a state, with a callback that may throw.\<close>

fun forEachE :: "('s \<Rightarrow> 'a \<Rightarrow> error + 's) \<Rightarrow> 's \<Rightarrow> 'a list \<Rightarrow> error + 's" where
  "forEachE f s [] = Inr s"
| "forEachE f s (x # xs) =
     (case f s x of Inl e \<Rightarrow> Inl e | Inr s' \<Rightarrow> forEachE f s' xs)"

text \<open>
  \<open>Esm2015PackageParser.parseFile\<close>: the values of the map, in insertion order; the
  empty sequence when the entry point has no module symbol.
\<close>

definition parseFile :: "checker \<Rightarrow> 'd host \<Rightarrow> sourceFile \<Rightarrow> error + 'd ParsedFile list" where
  "parseFile chk host entryPoint =
     (case getSymbolAtLocation chk (SourceFileNode entryPoint) of
        None \<Rightarrow> Inr []
      | Some moduleSymbol \<Rightarrow>
          (case decoratedClassesOf chk host moduleSymbol of
             Inl e \<Rightarrow> Inl e
           | Inr cs \<Rightarrow>
               (case forEachE addClass [] cs of
                  Inl e \<Rightarrow> Inl e
                | Inr m \<Rightarrow> Inr (map snd m))))"

section \<open>The parser on an explicit store\<close>

text \<open>
  \<open>parseFile\<close> writes to objects: \<open>new ParsedFile(file)\<close> makes an object, the map
  holds a reference to it, and \<open>push\<close> changes the object that
  \<open>map.get(file)\<close> refers to. Here the objects stand in a store, a reference is an
  address, and the parser returns the references of the parsed files together with the
  store as it leaves it. The store may hold any objects when the parser is called:
  parsed files of earlier calls, and objects of other kinds. The parsed classes are
  never changed after \<open>new ParsedClass(...)\<close> and stay values, as do the nodes and
  symbols of the checker: the source has no assignment to a property of any of them.
\<close>

type_synonym addr = nat

datatype 'd obj = External nat | FileObject "'d ParsedFile"

type_synonym 'd store = "'d obj list"

text \<open>\<open>new ParsedFile(file)\<close>: a new object at the next address.\<close>

definition newParsedFile :: "'d store \<Rightarrow> sourceFile \<Rightarrow> addr \<times> 'd store" where
  "newParsedFile st f = (length st, st @ [FileObject \<lparr>sourceFile = f, decoratedClasses = []\<rparr>])"

text \<open>
  \<open>x.decoratedClasses.push(clazz)\<close> for the object \<open>x\<close> at an address: a
  \<open>TypeError\<close> when the object is not a parsed file, as \<open>decoratedClasses\<close> is then
  \<open>undefined\<close>.
\<close>

definition pushClass :: "'d store \<Rightarrow> addr \<Rightarrow> 'd ParsedClass \<Rightarrow> error + 'd store" where
  "pushClass st a clazz =
     (if a < length st
      then (case st ! a of
              FileObject pf \<Rightarrow>
                Inr (st[a := FileObject (pf\<lparr>decoratedClasses := decoratedClasses pf @ [clazz]\<rparr>)])
            | External _ \<Rightarrow> Inl TypeError)
      else Inl TypeError)"

text \<open>The body of the \<open>forEach\<close>, with the map from source files to references.\<close>

definition addClassStore ::
  "(sourceFile \<times> addr) list \<Rightarrow> 'd store \<Rightarrow> 'd ParsedClass \<Rightarrow>
     (error + (sourceFile \<times> addr) list) \<times> 'd store" where
  "addClassStore m st clazz =
     (let f = getSourceFile (decl clazz);
          (m1, st1) = (if map_of m f = None
                       then (case newParsedFile st f of (a, st') \<Rightarrow> (AList.update f a m, st'))
                       else (m, st))
      in case map_of m1 f of
           None \<Rightarrow> (Inl TypeError, st1)
         | Some a \<Rightarrow>
             (case pushClass st1 a clazz of
                Inl e \<Rightarrow> (Inl e, st1)
              | Inr st2 \<Rightarrow> (Inr m1, st2)))"

fun forEachStore ::
  "('s \<Rightarrow> 'h \<Rightarrow> 'a \<Rightarrow> (error + 's) \<times> 'h) \<Rightarrow> 's \<Rightarrow> 'h \<Rightarrow> 'a list \<Rightarrow> (error + 's) \<times> 'h" where
  "forEachStore f s h [] = (Inr s, h)"
| "forEachStore f s h (x # xs) =
     (case f s h x of
        (Inl e, h') \<Rightarrow> (Inl e, h')
      | (Inr s', h') \<Rightarrow> forEachStore f s' h' xs)"

text \<open>
  \<open>parseFile\<close> on a store: the references of the parsed files (or the failure) and the
  store after the call.
\<close>

definition parseFileStore ::
  "checker \<Rightarrow> 'd host \<Rightarrow> 'd store \<Rightarrow> sourceFile \<Rightarrow> (error + addr list) \<times> 'd store" where
  "parseFileStore chk host st entryPoint =
     (case getSymbolAtLocation chk (SourceFileNode entryPoint) of
        None \<Rightarrow> (Inr [], st)
      | Some moduleSymbol \<Rightarrow>
          (case decoratedClassesOf chk host moduleSymbol of
             Inl e \<Rightarrow> (Inl e, st)
           | Inr cs \<Rightarrow>
               (case forEachStore addClassStore [] st cs of
                  (Inl e, st') \<Rightarrow> (Inl e, st')
                | (Inr m, st') \<Rightarrow> (Inr (map snd m), st'))))"

text \<open>
  What a result is worth in a store: the parsed files that its references refer to
  (\<open>None\<close> for a reference to no parsed file).
\<close>

definition fileAt :: "'d store \<Rightarrow> addr \<Rightarrow> 'd ParsedFile option" where
  "fileAt st a =
     (if a < length st
      then (case st ! a of FileObject pf \<Rightarrow> Some pf | External _ \<Rightarrow> None)
      else None)"

definition resultIn :: "'d store \<Rightarrow> error + addr list \<Rightarrow> error + 'd ParsedFile option list" where
  "resultIn st r = (case r of Inl e \<Rightarrow> Inl e | Inr as \<Rightarrow> Inr (map (fileAt st) as))"

text \<open>The map of the pure model that a map of references stands for in a store.\<close>

definition mapIn :: "'d store \<Rightarrow> (sourceFile \<times> addr) list \<Rightarrow> (sourceFile \<times> 'd ParsedFile) list" where
  "mapIn st m = map (\<lambda>(k, a). (k, the (fileAt st a))) m"

text \<open>
  The references of a map are distinct, refer to parsed files, and are references to
  objects made after the store \<open>st0\<close>, which is still the initial part of the store.
\<close>

definition refsOk :: "'d store \<Rightarrow> (sourceFile \<times> addr) list \<Rightarrow> 'd store \<Rightarrow> bool" where
  "refsOk st0 m st \<longleftrightarrow>
     distinct (map snd m) \<and> take (length st0) st = st0 \<and> length st0 \<le> length st \<and>
     list_all (\<lambda>(k, a). length st0 \<le> a \<and> fileAt st a \<noteq> None) m"

section \<open>Specification-side notions\<close>

text \<open>
  The elements of a sequence in the order of their first occurrence (\<open>remdups\<close> keeps
  the last occurrence of each element, so it is applied to the reversed sequence).
\<close>

definition firstSeen :: "'a list \<Rightarrow> 'a list" where
  "firstSeen xs = rev (remdups (rev xs))"

text \<open>
  Grouping a sequence of parsed classes by source file: one parsed file for each source
  file, in the order in which the files are first seen, with the classes of that file
  in the order of the sequence.
\<close>

definition groupByFile :: "'d ParsedClass list \<Rightarrow> 'd ParsedFile list" where
  "groupByFile cs =
     map (\<lambda>f. \<lparr>sourceFile = f,
                decoratedClasses = filter (\<lambda>c. getSourceFile (decl c) = f) cs\<rparr>)
       (firstSeen (map (\<lambda>c. getSourceFile (decl c)) cs))"

section \<open>Example inputs\<close>

text \<open>
  \<open>var Foo = (function () { function Foo() {} Foo.decorators = ...; return Foo; }());\<close>
  as the TypeScript compiler emits a class for ES5, where the inner \<open>Foo\<close> of the
  return statement is the identifier at position 7.
\<close>

definition ex_iife_body :: "stmt list" where
  "ex_iife_body =
     [FunctionDeclarationStatement ''Foo'' [] [],
      ExpressionStatement (OtherExpression 0),
      ReturnStatement (Some (Identifier 7 ''Foo''))]"

definition ex_Foo_decl :: Declaration where
  "ex_Foo_decl =
     VariableDeclaration 1 ''Foo''
       (Some (ParenthesizedExpression (CallExpression (FunctionExpression None [] ex_iife_body) [])))"

text \<open>
  \<open>var Foo = (function () { ... })();\<close>: the call is outside the parentheses, so the
  initializer is a call expression whose callee is parenthesized.
\<close>

definition ex_Foo_call_decl :: Declaration where
  "ex_Foo_call_decl =
     VariableDeclaration 1 ''Foo''
       (Some (CallExpression (ParenthesizedExpression (FunctionExpression None [] ex_iife_body)) []))"

text \<open>\<open>function Foo() {} if (c) { return Foo; }\<close>: the only return statement is nested.\<close>

definition ex_nested_body :: "stmt list" where
  "ex_nested_body =
     [FunctionDeclarationStatement ''Foo'' [] [],
      IfStatement (OtherExpression 1) (Block [ReturnStatement (Some (Identifier 7 ''Foo''))]) None]"

definition ex_Foo_nested_decl :: Declaration where
  "ex_Foo_nested_decl =
     VariableDeclaration 1 ''Foo''
       (Some (ParenthesizedExpression (CallExpression (FunctionExpression None [] ex_nested_body) [])))"

text \<open>
  \<open>[{type: Bar}, null, {type: undefined, decorators: [{type: Inject, args: [TOKEN]}]}]\<close>
\<close>

definition ex_elements :: "expr list" where
  "ex_elements =
     [ObjectLiteralExpression [(''type'', Identifier 20 ''Bar'')],
      OtherExpression 3,
      ObjectLiteralExpression
        [(''type'', Identifier 21 ''undefined''),
         (''decorators'', ArrayLiteralExpression
            [ObjectLiteralExpression
               [(''type'', Identifier 22 ''Inject''),
                (''args'', ArrayLiteralExpression [Identifier 23 ''TOKEN''])]])]]"

text \<open>
  Static properties \<open>ctorParameters\<close> of four classes: a function expression that
  returns the array, an arrow function with the array as its body, a function
  expression that returns an identifier, and a function expression whose return
  statement is nested in a conditional.
\<close>

definition ex_prop_fn :: symbol where
  "ex_prop_fn = Symbol 4 ''ctorParameters'' (Some (OtherDeclaration 1)) None"

definition ex_prop_arrow :: symbol where
  "ex_prop_arrow = Symbol 4 ''ctorParameters'' (Some (OtherDeclaration 2)) None"

definition ex_prop_noarray :: symbol where
  "ex_prop_noarray = Symbol 4 ''ctorParameters'' (Some (OtherDeclaration 3)) None"

definition ex_prop_nested :: symbol where
  "ex_prop_nested = Symbol 4 ''ctorParameters'' (Some (OtherDeclaration 4)) None"

definition ex_getPropertyValueFromSymbol :: "symbol \<Rightarrow> expr option" where
  "ex_getPropertyValueFromSymbol s =
     (if s = ex_prop_fn
        then Some (FunctionExpression None [] [ReturnStatement (Some (ArrayLiteralExpression ex_elements))])
      else if s = ex_prop_arrow
        then Some (ArrowFunction [] (Inl (ArrayLiteralExpression ex_elements)))
      else if s = ex_prop_noarray
        then Some (FunctionExpression None [] [ReturnStatement (Some (Identifier 30 ''params''))])
      else if s = ex_prop_nested
        then Some (FunctionExpression None []
               [IfStatement (OtherExpression 1)
                  (Block [ReturnStatement (Some (ArrayLiteralExpression ex_elements))]) None])
      else None)"

definition ex_reflectObjectLiteral :: "expr \<Rightarrow> (string \<times> expr) list" where
  "ex_reflectObjectLiteral e = (case e of ObjectLiteralExpression props \<Rightarrow> props | _ \<Rightarrow> [])"

definition ex_class :: "symbol \<Rightarrow> symbol" where
  "ex_class prop =
     Symbol 16 ''Foo'' (Some (FunctionDeclaration 1 (Some ''Foo'') [''a'', ''b'', ''c''] []))
       (Some [(''decorators'', Symbol 4 ''decorators'' None None), (''ctorParameters'', prop)])"

definition ex_class_noprop :: symbol where
  "ex_class_noprop =
     Symbol 16 ''Foo'' (Some (FunctionDeclaration 1 (Some ''Foo'') [] []))
       (Some [(''decorators'', Symbol 4 ''decorators'' None None)])"

text \<open>
  Exported symbols: the classes \<open>A\<close> and \<open>C\<close> of file 1 and \<open>B\<close> of file 2, the
  class \<open>U\<close> of file 1 for which the host has no decorators, the class \<open>E\<close> of
  file 3 for which the host has the empty array, an unnamed class of file 4, a
  class symbol without a value declaration, the class \<open>R\<close> of file 5 on which the
  host throws a \<open>RangeError\<close>, a function, and an alias of \<open>B\<close>.
\<close>

definition ex_clsA :: symbol where
  "ex_clsA = Symbol 32 ''A'' (Some (ClassDeclaration 1 (Some ''A''))) None"

definition ex_clsB :: symbol where
  "ex_clsB = Symbol 32 ''B'' (Some (ClassDeclaration 2 (Some ''B''))) None"

definition ex_clsC :: symbol where
  "ex_clsC = Symbol 32 ''C'' (Some (ClassDeclaration 1 (Some ''C''))) None"

definition ex_clsU :: symbol where
  "ex_clsU = Symbol 32 ''U'' (Some (ClassDeclaration 1 (Some ''U''))) None"

definition ex_clsE :: symbol where
  "ex_clsE = Symbol 32 ''E'' (Some (ClassDeclaration 3 (Some ''E''))) None"

definition ex_clsN :: symbol where
  "ex_clsN = Symbol 32 ''default'' (Some (ClassDeclaration 4 None)) None"

definition ex_clsX :: symbol where
  "ex_clsX = Symbol 32 ''X'' None None"

definition ex_clsR :: symbol where
  "ex_clsR = Symbol 32 ''R'' (Some (ClassDeclaration 5 (Some ''R''))) None"

definition ex_fnF :: symbol where
  "ex_fnF = Symbol 16 ''f'' (Some (FunctionDeclaration 1 (Some ''f'') [] [])) None"

definition ex_aliasB :: symbol where
  "ex_aliasB = Symbol 2097152 ''B'' None None"

definition ex_innerFoo :: symbol where
  "ex_innerFoo = Symbol 16 ''Foo'' (Some (FunctionDeclaration 1 (Some ''Foo'') [] [])) None"

text \<open>
  Module symbols, told apart by their names, and a checker: the module of entry
  point 0 exports \<open>A\<close>, the function, the alias of \<open>B\<close>, \<open>U\<close> and \<open>C\<close>; the
  module of entry point 10 exports \<open>B\<close> itself in place of the alias; the module of
  entry point 20 exports \<open>U\<close> and \<open>E\<close>; the module of entry point 30 exports \<open>A\<close>
  and the unnamed class; the module of entry point 50 exports the class symbol
  without a value declaration and \<open>A\<close>; the module of entry point 60 exports
  \<open>A\<close>, \<open>R\<close> and the unnamed class. Entry point 40 has no module symbol.
\<close>

definition ex_module :: "string \<Rightarrow> symbol" where
  "ex_module n = Symbol 512 n None None"

definition ex_checker :: checker where
  "ex_checker =
     \<lparr>getSymbolAtLocation = (\<lambda>n.
          if n = SourceFileNode 0 then Some (ex_module ''m0'')
          else if n = SourceFileNode 10 then Some (ex_module ''m10'')
          else if n = SourceFileNode 20 then Some (ex_module ''m20'')
          else if n = SourceFileNode 30 then Some (ex_module ''m30'')
          else if n = SourceFileNode 50 then Some (ex_module ''m50'')
          else if n = SourceFileNode 60 then Some (ex_module ''m60'')
          else if n = ExprNode (Identifier 7 ''Foo'') then Some ex_innerFoo
          else None),
       getExportsOfModule = (\<lambda>s.
          if s = ex_module ''m0'' then [ex_clsA, ex_fnF, ex_aliasB, ex_clsU, ex_clsC]
          else if s = ex_module ''m10'' then [ex_clsA, ex_fnF, ex_clsB, ex_clsU, ex_clsC]
          else if s = ex_module ''m20'' then [ex_clsU, ex_clsE]
          else if s = ex_module ''m30'' then [ex_clsA, ex_clsN]
          else if s = ex_module ''m50'' then [ex_clsX, ex_clsA]
          else if s = ex_module ''m60'' then [ex_clsA, ex_clsR, ex_clsN]
          else []),
       getAliasedSymbol = (\<lambda>s.
          if s = ex_aliasB then ex_clsB else Symbol 0 ''unknown'' None None)\<rparr>"

definition ex_host :: "string host" where
  "ex_host d =
     (if d = Some (ClassDeclaration 1 (Some ''A'')) then Inr (Some [''Component''])
      else if d = Some (ClassDeclaration 2 (Some ''B'')) then Inr (Some [''Injectable''])
      else if d = Some (ClassDeclaration 1 (Some ''C'')) then Inr (Some [''Directive'', ''Input''])
      else if d = Some (ClassDeclaration 3 (Some ''E'')) then Inr (Some [])
      else if d = Some (ClassDeclaration 4 None) then Inr (Some [''Component''])
      else if d = Some (ClassDeclaration 5 (Some ''R'')) then Inl (OtherError ''RangeError'')
      else Inr None)"

text \<open>A store with an object of another kind and a parsed file of an earlier call.\<close>

definition ex_store :: "string store" where
  "ex_store = [External 7, FileObject \<lparr>sourceFile = 9, decoratedClasses = []\<rparr>]"

text \<open>The parsed classes of \<open>A\<close>, \<open>B\<close>, \<open>C\<close> and \<open>E\<close> under this host.\<close>

definition ex_parsedA :: "string ParsedClass" where
  "ex_parsedA = \<lparr>name = ''A'', decl = ClassDeclaration 1 (Some ''A''), decorators = [''Component'']\<rparr>"

definition ex_parsedB :: "string ParsedClass" where
  "ex_parsedB = \<lparr>name = ''B'', decl = ClassDeclaration 2 (Some ''B''), decorators = [''Injectable'']\<rparr>"

definition ex_parsedC :: "string ParsedClass" where
  "ex_parsedC =
     \<lparr>name = ''C'', decl = ClassDeclaration 1 (Some ''C''), decorators = [''Directive'', ''Input'']\<rparr>"

definition ex_parsedE :: "string ParsedClass" where
  "ex_parsedE = \<lparr>name = ''E'', decl = ClassDeclaration 3 (Some ''E''), decorators = []\<rparr>"

text \<open>The store after a call for entry point 0 from \<open>ex_store\<close>, and after a second one.\<close>

definition ex_store1 :: "string store" where
  "ex_store1 =
     ex_store @ [FileObject \<lparr>sourceFile = 1, decoratedClasses = [ex_parsedA, ex_parsedC]\<rparr>,
                 FileObject \<lparr>sourceFile = 2, decoratedClasses = [ex_parsedB]\<rparr>]"

definition ex_store2 :: "string store" where
  "ex_store2 =
     ex_store1 @ [FileObject \<lparr>sourceFile = 1, decoratedClasses = [ex_parsedA, ex_parsedC]\<rparr>,
                  FileObject \<lparr>sourceFile = 2, decoratedClasses = [ex_parsedB]\<rparr>]"

section \<open>The return statement of a function body\<close>

lemma getReturnStatement_first:
  "\<forall>s\<in>set pre. \<not> isReturnStatement s \<Longrightarrow>
   getReturnStatement (pre @ ReturnStatement r # post) = Some (ReturnStatement r)"
  by (induction pre) (auto simp: getReturnStatement_def)

lemma getReturnStatement_None:
  "\<forall>s\<in>set body. \<not> isReturnStatement s \<Longrightarrow> getReturnStatement body = None"
  by (simp add: getReturnStatement_def find_None_iff)

lemma getReturnStatement_SomeD:
  "getReturnStatement body = Some s \<Longrightarrow>
   \<exists>pre r post. body = pre @ ReturnStatement r # post \<and> s = ReturnStatement r \<and>
     (\<forall>s\<in>set pre. \<not> isReturnStatement s)"
proof (induction body)
  case Nil
  then show ?case by (simp add: getReturnStatement_def)
next
  case (Cons a body)
  show ?case
  proof (cases "isReturnStatement a")
    case True
    then obtain r where "a = ReturnStatement r" by (cases a) auto
    with Cons.prems have "a # body = [] @ ReturnStatement r # body \<and> s = ReturnStatement r"
      by (simp add: getReturnStatement_def)
    then show ?thesis by (metis empty_iff list.set(1))
  next
    case False
    with Cons.prems have "getReturnStatement body = Some s"
      by (simp add: getReturnStatement_def)
    from Cons.IH[OF this] obtain pre r post where
      "body = pre @ ReturnStatement r # post" "s = ReturnStatement r"
      "\<forall>s\<in>set pre. \<not> isReturnStatement s" by blast
    with False have "a # body = (a # pre) @ ReturnStatement r # post \<and> s = ReturnStatement r \<and>
      (\<forall>s\<in>set (a # pre). \<not> isReturnStatement s)" by simp
    then show ?thesis by blast
  qed
qed

lemma getIifeBody_SomeD:
  "getIifeBody init = Some body \<Longrightarrow>
   \<exists>n ps args. init = Some (ParenthesizedExpression (CallExpression (FunctionExpression n ps body) args))"
  by (induction init rule: getIifeBody.induct) auto

lemma getReturnIdentifier_SomeD:
  "getReturnIdentifier body = Some e \<Longrightarrow>
   \<exists>p t. e = Identifier p t \<and> getReturnStatement body = Some (ReturnStatement (Some (Identifier p t)))"
  by (auto simp: getReturnIdentifier_def split: option.splits stmt.splits expr.splits)

section \<open>The class symbol of an IIFE\<close>

text \<open>
  Claim C2, as stated, fails. The specification writes the IIFE as
  \<open>(function () { function Foo() {} ...; return Foo; })()\<close>: a call whose callee is the
  parenthesized function expression. The initializer is then a call expression, not a
  parenthesized expression, and \<open>getIifeBody\<close> finds no body: \<open>getClassSymbol\<close> is
  \<open>None\<close>, although the first return statement of the function returns the
  identifier \<open>Foo\<close> and the checker resolves it to the symbol of the inner function.
\<close>

theorem getClassSymbol_spec_form_counterexample:
  "ex_Foo_call_decl =
     VariableDeclaration 1 ''Foo''
       (Some (CallExpression (ParenthesizedExpression (FunctionExpression None [] ex_iife_body)) [])) \<and>
   getReturnIdentifier ex_iife_body = Some (Identifier 7 ''Foo'') \<and>
   getSymbolAtLocation ex_checker (ExprNode (Identifier 7 ''Foo'')) = Some ex_innerFoo \<and>
   getClassSymbol ex_checker ex_Foo_call_decl = None"
  by (simp add: ex_Foo_call_decl_def ex_iife_body_def getReturnIdentifier_def getReturnStatement_def
      ex_checker_def)

text \<open>
  Claim C2, amended. Let the declaration be a variable declaration whose initializer is
  a parenthesized expression around a call whose callee is a function expression, the
  form \<open>(function () { ... }())\<close>, and let the first return statement among the
  immediate statements of that function's body (no statement of \<open>pre\<close> is a return
  statement) return an identifier. Then \<open>getClassSymbol\<close> is what the checker resolves
  that identifier to. For every declaration that has not this shape, with whatever
  part of it missing, \<open>getClassSymbol\<close> is \<open>None\<close>; so it is for the form
  \<open>(function () { ... })()\<close>, where the parentheses are around the function and not
  around the call. The model has no failing branch, so no error is raised in any case.
\<close>

theorem getClassSymbol_iife:
  "(d = VariableDeclaration f nm (Some (ParenthesizedExpression (CallExpression
          (FunctionExpression n ps (pre @ ReturnStatement (Some (Identifier p t)) # post)) args))) \<longrightarrow>
    (\<forall>s\<in>set pre. \<not> isReturnStatement s) \<longrightarrow>
    getClassSymbol chk d = getSymbolAtLocation chk (ExprNode (Identifier p t)))
   \<and>
   ((\<forall>f' nm' n' ps' pre' p' t' post' args'.
       d = VariableDeclaration f' nm' (Some (ParenthesizedExpression (CallExpression
          (FunctionExpression n' ps' (pre' @ ReturnStatement (Some (Identifier p' t')) # post')) args'))) \<longrightarrow>
       (\<exists>s\<in>set pre'. isReturnStatement s)) \<longrightarrow>
    getClassSymbol chk d = None)
   \<and>
   (d = VariableDeclaration f nm (Some (CallExpression
          (ParenthesizedExpression (FunctionExpression n ps body)) args)) \<longrightarrow>
    getClassSymbol chk d = None)"
proof (intro conjI impI)
  assume "d = VariableDeclaration f nm (Some (ParenthesizedExpression (CallExpression
          (FunctionExpression n ps (pre @ ReturnStatement (Some (Identifier p t)) # post)) args)))"
    and "\<forall>s\<in>set pre. \<not> isReturnStatement s"
  then show "getClassSymbol chk d = getSymbolAtLocation chk (ExprNode (Identifier p t))"
    by (simp add: getReturnIdentifier_def getReturnStatement_first)
next
  assume H: "\<forall>f' nm' n' ps' pre' p' t' post' args'.
       d = VariableDeclaration f' nm' (Some (ParenthesizedExpression (CallExpression
          (FunctionExpression n' ps' (pre' @ ReturnStatement (Some (Identifier p' t')) # post')) args'))) \<longrightarrow>
       (\<exists>s\<in>set pre'. isReturnStatement s)"
  show "getClassSymbol chk d = None"
  proof (rule ccontr)
    assume N: "getClassSymbol chk d \<noteq> None"
    then obtain f' nm' init where d: "d = VariableDeclaration f' nm' init"
      by (cases d) auto
    from N d obtain body where b: "getIifeBody init = Some body"
      by (auto split: option.splits)
    from N d b obtain e where e: "getReturnIdentifier body = Some e"
      by (auto split: option.splits)
    from getIifeBody_SomeD[OF b] obtain n' ps' args' where
      i: "init = Some (ParenthesizedExpression (CallExpression (FunctionExpression n' ps' body) args'))"
      by blast
    from getReturnIdentifier_SomeD[OF e] obtain p' t' where
      r: "getReturnStatement body = Some (ReturnStatement (Some (Identifier p' t')))" by blast
    from getReturnStatement_SomeD[OF r] obtain pre' post' where
      "body = pre' @ ReturnStatement (Some (Identifier p' t')) # post'"
      "\<forall>s\<in>set pre'. \<not> isReturnStatement s" by auto
    with H d i show False by blast
  qed
next
  assume "d = VariableDeclaration f nm (Some (CallExpression
          (ParenthesizedExpression (FunctionExpression n ps body)) args))"
  then show "getClassSymbol chk d = None"
    by simp
qed

text \<open>
  The emitted form \<open>(function () { ... return Foo; }())\<close> resolves to the symbol of
  the inner \<open>Foo\<close>; a declaration that is no variable declaration, and the form
  \<open>(function () { ... })()\<close>, give \<open>None\<close>.
\<close>

theorem getClassSymbol_iife_witness:
  "map isReturnStatement ex_iife_body = [False, False, True] \<and>
   getClassSymbol ex_checker ex_Foo_decl = Some ex_innerFoo \<and>
   getClassSymbol ex_checker (OtherDeclaration 1) = None \<and>
   getClassSymbol ex_checker ex_Foo_call_decl = None"
proof -
  have pre: "\<forall>s\<in>set (butlast ex_iife_body). \<not> isReturnStatement s"
    by (simp add: ex_iife_body_def)
  have shape: "ex_Foo_decl = VariableDeclaration 1 ''Foo'' (Some (ParenthesizedExpression
      (CallExpression (FunctionExpression None []
         (butlast ex_iife_body @ ReturnStatement (Some (Identifier 7 ''Foo'')) # [])) [])))"
    by (simp add: ex_Foo_decl_def ex_iife_body_def)
  have inner: "getClassSymbol ex_checker ex_Foo_decl =
      getSymbolAtLocation ex_checker (ExprNode (Identifier 7 ''Foo''))"
    using getClassSymbol_iife [where d = ex_Foo_decl and chk = ex_checker
        and pre = "butlast ex_iife_body" and post = "[]", THEN conjunct1] shape pre
    by blast
  have other: "getClassSymbol ex_checker (OtherDeclaration 1) = None"
    using getClassSymbol_iife [where d = "OtherDeclaration 1" and chk = ex_checker,
        THEN conjunct2, THEN conjunct1]
    by simp
  have spec_form: "getClassSymbol ex_checker ex_Foo_call_decl = None"
    using getClassSymbol_iife [where d = ex_Foo_call_decl and chk = ex_checker and f = 1
        and nm = "''Foo''" and n = None and ps = "[]" and body = ex_iife_body and args = "[]",
        THEN conjunct2, THEN conjunct2]
    by (simp add: ex_Foo_call_decl_def)
  have stmts: "map isReturnStatement ex_iife_body = [False, False, True]"
    by (simp add: ex_iife_body_def)
  from stmts inner other spec_form show ?thesis
    by (simp add: ex_checker_def)
qed

section \<open>The decorators of the constructor parameters\<close>

lemmas ex_props = ex_prop_fn_def ex_prop_arrow_def ex_prop_noarray_def ex_prop_nested_def

lemma getConstructorDecorators_no_array:
  assumes "exports classSymbol = Some tbl"
    and "map_of tbl CONSTRUCTOR_PARAMS = Some propSymbol"
    and "getPropertyValueFromSymbol propSymbol = Some (FunctionExpression n ps body)"
    and "\<forall>elements. getReturnStatement body \<noteq> Some (ReturnStatement (Some (ArrayLiteralExpression elements)))"
  shows "getConstructorDecorators getPropertyValueFromSymbol reflectObjectLiteral classSymbol = []"
  using assms
  by (simp add: getConstructorDecorators_def split: option.splits stmt.splits expr.splits)

text \<open>
  Claim C3. Let the class symbol have a static property \<open>ctorParameters\<close> whose value
  is a function expression, and let the first return statement among the immediate
  statements of its body return an array literal. Then \<open>getConstructorDecorators\<close>
  has one entry for each element of the array, in the order of the elements: what the
  object-literal reflector makes of the element when it is an object literal, and
  \<open>None\<close> for an element of any other kind. So the result is as long as the array
  and the entry at a position belongs to the element at that position.
\<close>

theorem getConstructorDecorators_array:
  assumes "exports classSymbol = Some tbl"
    and "map_of tbl CONSTRUCTOR_PARAMS = Some propSymbol"
    and "getPropertyValueFromSymbol propSymbol =
           Some (FunctionExpression n ps
                  (pre @ ReturnStatement (Some (ArrayLiteralExpression elements)) # post))"
    and "\<forall>s\<in>set pre. \<not> isReturnStatement s"
  shows "getConstructorDecorators getPropertyValueFromSymbol reflectObjectLiteral classSymbol =
           map (\<lambda>element. case element of
                    ObjectLiteralExpression props \<Rightarrow> Some (reflectObjectLiteral element)
                  | _ \<Rightarrow> None) elements
         \<and> length (getConstructorDecorators getPropertyValueFromSymbol reflectObjectLiteral classSymbol)
             = length elements"
proof -
  have k: "(if isObjectLiteralExpression e then Some (reflectObjectLiteral e) else None) =
        (case e of ObjectLiteralExpression props \<Rightarrow> Some (reflectObjectLiteral e) | _ \<Rightarrow> None)" for e
    by (cases e) simp_all
  from assms show ?thesis
    by (simp add: getConstructorDecorators_def getReturnStatement_first k)
qed

text \<open>
  For \<open>function () { return [{type: Bar}, null, {type: undefined, decorators: [...]}]; }\<close>
  the result has three entries, the second one \<open>None\<close>.
\<close>

theorem getConstructorDecorators_array_witness:
  "getConstructorDecorators ex_getPropertyValueFromSymbol ex_reflectObjectLiteral (ex_class ex_prop_fn) =
     [Some [(''type'', Identifier 20 ''Bar'')],
      None,
      Some [(''type'', Identifier 21 ''undefined''),
            (''decorators'', ArrayLiteralExpression
               [ObjectLiteralExpression
                  [(''type'', Identifier 22 ''Inject''),
                   (''args'', ArrayLiteralExpression [Identifier 23 ''TOKEN''])]])]]"
  using getConstructorDecorators_array [where classSymbol = "ex_class ex_prop_fn"
      and tbl = "[(''decorators'', Symbol 4 ''decorators'' None None), (''ctorParameters'', ex_prop_fn)]"
      and propSymbol = ex_prop_fn and getPropertyValueFromSymbol = ex_getPropertyValueFromSymbol
      and reflectObjectLiteral = ex_reflectObjectLiteral
      and n = None and ps = "[]" and pre = "[]" and post = "[]" and elements = ex_elements]
  by (simp add: ex_class_def CONSTRUCTOR_PARAMS_def ex_getPropertyValueFromSymbol_def
      ex_reflectObjectLiteral_def ex_elements_def)

text \<open>
  Claim C5. \<open>getConstructorDecorators\<close> is the empty sequence when the class symbol
  has no static property \<open>ctorParameters\<close> (no table of exports, or no such key in
  it), when the value of the property is not a function expression (an arrow function,
  or no value at all), and when the value is a function expression whose first
  immediate return statement does not return an array literal (also when there is no
  such statement). The model has no failing branch: every property read of the source
  is behind the test that makes it safe.
\<close>

theorem getConstructorDecorators_empty:
  assumes "exports classSymbol = None
     \<or> (\<exists>tbl. exports classSymbol = Some tbl \<and> map_of tbl CONSTRUCTOR_PARAMS = None)
     \<or> (\<exists>tbl propSymbol. exports classSymbol = Some tbl \<and>
            map_of tbl CONSTRUCTOR_PARAMS = Some propSymbol \<and>
            (\<forall>n ps body. getPropertyValueFromSymbol propSymbol \<noteq> Some (FunctionExpression n ps body)))
     \<or> (\<exists>tbl propSymbol n ps body. exports classSymbol = Some tbl \<and>
            map_of tbl CONSTRUCTOR_PARAMS = Some propSymbol \<and>
            getPropertyValueFromSymbol propSymbol = Some (FunctionExpression n ps body) \<and>
            (\<forall>pre elements post.
               body = pre @ ReturnStatement (Some (ArrayLiteralExpression elements)) # post \<longrightarrow>
               (\<exists>s\<in>set pre. isReturnStatement s)))"
  shows "getConstructorDecorators getPropertyValueFromSymbol reflectObjectLiteral classSymbol = []"
proof -
  have noarray: "getConstructorDecorators getPropertyValueFromSymbol reflectObjectLiteral classSymbol = []"
    if e: "exports classSymbol = Some tbl"
      and p: "map_of tbl CONSTRUCTOR_PARAMS = Some propSymbol"
      and g: "getPropertyValueFromSymbol propSymbol = Some (FunctionExpression n ps body)"
      and b: "\<forall>pre elements post.
               body = pre @ ReturnStatement (Some (ArrayLiteralExpression elements)) # post \<longrightarrow>
               (\<exists>s\<in>set pre. isReturnStatement s)"
    for tbl propSymbol n ps body
  proof -
    have "getReturnStatement body \<noteq> Some (ReturnStatement (Some (ArrayLiteralExpression elements)))"
      for elements
    proof
      assume "getReturnStatement body = Some (ReturnStatement (Some (ArrayLiteralExpression elements)))"
      from getReturnStatement_SomeD[OF this] obtain pre post where
        "body = pre @ ReturnStatement (Some (ArrayLiteralExpression elements)) # post"
        "\<forall>s\<in>set pre. \<not> isReturnStatement s" by auto
      with b show False by blast
    qed
    with e p g show ?thesis
      by (intro getConstructorDecorators_no_array) auto
  qed
  from assms show ?thesis
  proof (elim disjE exE conjE)
    assume "exports classSymbol = None"
    then show ?thesis by (simp add: getConstructorDecorators_def)
  next
    fix tbl
    assume "exports classSymbol = Some tbl" "map_of tbl CONSTRUCTOR_PARAMS = None"
    then show ?thesis by (simp add: getConstructorDecorators_def)
  next
    fix tbl propSymbol
    assume "exports classSymbol = Some tbl" "map_of tbl CONSTRUCTOR_PARAMS = Some propSymbol"
      "\<forall>n ps body. getPropertyValueFromSymbol propSymbol \<noteq> Some (FunctionExpression n ps body)"
    then show ?thesis
      by (simp add: getConstructorDecorators_def split: option.splits expr.splits)
  next
    fix tbl propSymbol n ps body
    assume "exports classSymbol = Some tbl" "map_of tbl CONSTRUCTOR_PARAMS = Some propSymbol"
      "getPropertyValueFromSymbol propSymbol = Some (FunctionExpression n ps body)"
      "\<forall>pre elements post.
               body = pre @ ReturnStatement (Some (ArrayLiteralExpression elements)) # post \<longrightarrow>
               (\<exists>s\<in>set pre. isReturnStatement s)"
    then show ?thesis by (rule noarray)
  qed
qed

text \<open>
  The three cases: an arrow function \<open>() => [...]\<close>, a function expression that returns
  an identifier, and a class without the property.
\<close>

theorem getConstructorDecorators_empty_witness:
  "getConstructorDecorators ex_getPropertyValueFromSymbol ex_reflectObjectLiteral (ex_class ex_prop_arrow) = [] \<and>
   getConstructorDecorators ex_getPropertyValueFromSymbol ex_reflectObjectLiteral (ex_class ex_prop_noarray) = [] \<and>
   getConstructorDecorators ex_getPropertyValueFromSymbol ex_reflectObjectLiteral ex_class_noprop = []"
proof -
  have arrow: "\<exists>tbl propSymbol. exports (ex_class ex_prop_arrow) = Some tbl \<and>
            map_of tbl CONSTRUCTOR_PARAMS = Some propSymbol \<and>
            (\<forall>n ps body. ex_getPropertyValueFromSymbol propSymbol \<noteq> Some (FunctionExpression n ps body))"
    by (simp add: ex_class_def CONSTRUCTOR_PARAMS_def ex_getPropertyValueFromSymbol_def ex_props)
  have noarray: "\<exists>tbl propSymbol n ps body. exports (ex_class ex_prop_noarray) = Some tbl \<and>
            map_of tbl CONSTRUCTOR_PARAMS = Some propSymbol \<and>
            ex_getPropertyValueFromSymbol propSymbol = Some (FunctionExpression n ps body) \<and>
            (\<forall>pre elements post.
               body = pre @ ReturnStatement (Some (ArrayLiteralExpression elements)) # post \<longrightarrow>
               (\<exists>s\<in>set pre. isReturnStatement s))"
    by (auto simp: ex_class_def CONSTRUCTOR_PARAMS_def ex_getPropertyValueFromSymbol_def ex_props
        Cons_eq_append_conv)
  have noprop: "\<exists>tbl. exports ex_class_noprop = Some tbl \<and> map_of tbl CONSTRUCTOR_PARAMS = None"
    by (simp add: ex_class_noprop_def CONSTRUCTOR_PARAMS_def)
  show ?thesis
    using getConstructorDecorators_empty [where classSymbol = "ex_class ex_prop_arrow"
        and getPropertyValueFromSymbol = ex_getPropertyValueFromSymbol
        and reflectObjectLiteral = ex_reflectObjectLiteral]
      getConstructorDecorators_empty [where classSymbol = "ex_class ex_prop_noarray"
        and getPropertyValueFromSymbol = ex_getPropertyValueFromSymbol
        and reflectObjectLiteral = ex_reflectObjectLiteral]
      getConstructorDecorators_empty [where classSymbol = "ex_class_noprop"
        and getPropertyValueFromSymbol = ex_getPropertyValueFromSymbol
        and reflectObjectLiteral = ex_reflectObjectLiteral]
      arrow noarray noprop
    by blast
qed

section \<open>Return statements in inner blocks\<close>

text \<open>
  Claim C10. \<open>getReturnStatement\<close> looks at the immediate statements of a body only.
  When none of them is a return statement, whatever return statements are nested
  inside them, \<open>getClassSymbol\<close> of the IIFE with this body is \<open>None\<close>, and
  \<open>getConstructorDecorators\<close> of a class whose \<open>ctorParameters\<close> is a function
  expression with this body is the empty sequence.
\<close>

theorem nested_return_ignored:
  assumes "\<forall>s\<in>set body. \<not> isReturnStatement s"
  shows "getClassSymbol chk (VariableDeclaration f nm (Some (ParenthesizedExpression
            (CallExpression (FunctionExpression n ps body) args)))) = None
       \<and> (exports classSymbol = Some tbl \<longrightarrow>
          map_of tbl CONSTRUCTOR_PARAMS = Some propSymbol \<longrightarrow>
          getPropertyValueFromSymbol propSymbol = Some (FunctionExpression n' ps' body) \<longrightarrow>
          getConstructorDecorators getPropertyValueFromSymbol reflectObjectLiteral classSymbol = [])"
proof -
  from assms have r: "getReturnStatement body = None"
    by (rule getReturnStatement_None)
  then have "getClassSymbol chk (VariableDeclaration f nm (Some (ParenthesizedExpression
            (CallExpression (FunctionExpression n ps body) args)))) = None"
    by (simp add: getReturnIdentifier_def)
  moreover from r have "exports classSymbol = Some tbl \<longrightarrow>
          map_of tbl CONSTRUCTOR_PARAMS = Some propSymbol \<longrightarrow>
          getPropertyValueFromSymbol propSymbol = Some (FunctionExpression n' ps' body) \<longrightarrow>
          getConstructorDecorators getPropertyValueFromSymbol reflectObjectLiteral classSymbol = []"
    by (simp add: getConstructorDecorators_def)
  ultimately show ?thesis by blast
qed

text \<open>
  \<open>if (c) { return Foo; }\<close> in the IIFE and \<open>if (c) { return [...]; }\<close> in
  \<open>ctorParameters\<close>: the return statement inside the conditional is not found.
\<close>

theorem nested_return_ignored_witness:
  "map isReturnStatement ex_nested_body = [False, False] \<and>
   getClassSymbol ex_checker ex_Foo_nested_decl = None \<and>
   getConstructorDecorators ex_getPropertyValueFromSymbol ex_reflectObjectLiteral
     (ex_class ex_prop_nested) = []"
proof -
  have b1: "\<forall>s\<in>set ex_nested_body. \<not> isReturnStatement s"
    by (simp add: ex_nested_body_def)
  have b2: "\<forall>s\<in>set [IfStatement (OtherExpression 1)
                  (Block [ReturnStatement (Some (ArrayLiteralExpression ex_elements))]) None].
              \<not> isReturnStatement s"
    by simp
  have c1: "getClassSymbol ex_checker ex_Foo_nested_decl = None"
    using nested_return_ignored [where chk = ex_checker and f = 1
        and nm = "''Foo''" and n = None and ps = "[]" and args = "[]", OF b1, THEN conjunct1]
    by (simp add: ex_Foo_nested_decl_def)
  have c2: "getConstructorDecorators ex_getPropertyValueFromSymbol ex_reflectObjectLiteral
     (ex_class ex_prop_nested) = []"
    using nested_return_ignored [where classSymbol = "ex_class ex_prop_nested"
        and tbl = "[(''decorators'', Symbol 4 ''decorators'' None None), (''ctorParameters'', ex_prop_nested)]"
        and propSymbol = ex_prop_nested
        and getPropertyValueFromSymbol = ex_getPropertyValueFromSymbol
        and reflectObjectLiteral = ex_reflectObjectLiteral and n' = None and ps' = "[]",
        OF b2, THEN conjunct2]
    by (simp add: ex_class_def CONSTRUCTOR_PARAMS_def ex_getPropertyValueFromSymbol_def ex_props)
  have c0: "map isReturnStatement ex_nested_body = [False, False]"
    by (simp add: ex_nested_body_def)
  from c0 c1 c2 show ?thesis by simp
qed

section \<open>The grouping of the decorated classes by source file\<close>

text \<open>
  The \<open>forEach\<close> of \<open>parseFile\<close> builds the grouping \<open>groupByFile\<close> step by step:
  after the classes \<open>pre\<close> the map holds \<open>groupByFile pre\<close>, and \<open>map.get(file)!\<close>
  never fails.
\<close>

lemma firstSeen_snoc:
  "firstSeen (xs @ [x]) = (if x \<in> set xs then firstSeen xs else firstSeen xs @ [x])"
  by (simp add: firstSeen_def)

lemma set_firstSeen: "set (firstSeen xs) = set xs"
  by (simp add: firstSeen_def)

lemma distinct_firstSeen: "distinct (firstSeen xs)"
  by (simp add: firstSeen_def)

lemma update_fresh: "k \<notin> set ks \<Longrightarrow>
  AList.update k v (map (\<lambda>x. (x, g x)) ks) = map (\<lambda>x. (x, g x)) ks @ [(k, v)]"
  by (induction ks) auto

lemma update_present: "k \<in> set ks \<Longrightarrow> distinct ks \<Longrightarrow>
  AList.update k v (map (\<lambda>x. (x, g x)) ks) = map (\<lambda>x. (x, if x = k then v else g x)) ks"
  by (induction ks) (auto simp: update_fresh)

lemma map_of_keyed: "map_of (map (\<lambda>x. (x, g x)) ks) k = (if k \<in> set ks then Some (g k) else None)"
  by (induction ks) auto

lemma keyed_groupByFile:
  "keyed (groupByFile cs) =
     map (\<lambda>f. (f, \<lparr>sourceFile = f, decoratedClasses = filter (\<lambda>c. getSourceFile (decl c) = f) cs\<rparr>))
       (firstSeen (map (\<lambda>c. getSourceFile (decl c)) cs))"
  by (simp add: keyed_def groupByFile_def comp_def)

lemma addClass_groupByFile:
  "addClass (keyed (groupByFile pre)) c = Inr (keyed (groupByFile (pre @ [c])))"
proof -
  define fileOf where "fileOf = (\<lambda>c :: 'a ParsedClass. getSourceFile (decl c))"
  define f where "f = fileOf c"
  define ks where "ks = firstSeen (map fileOf pre)"
  define g where "g = (\<lambda>pre k. \<lparr>sourceFile = k, decoratedClasses = filter (\<lambda>c. fileOf c = k) pre\<rparr>)"
  have M: "keyed (groupByFile xs) = map (\<lambda>k. (k, g xs k)) (firstSeen (map fileOf xs))" for xs
    by (simp add: keyed_groupByFile g_def fileOf_def)
  have ks: "set ks = fileOf ` set pre" "distinct ks"
    by (simp_all add: ks_def set_firstSeen distinct_firstSeen)
  have other: "g (pre @ [c]) k = g pre k" if "k \<noteq> f" for k
    using that by (simp add: g_def f_def)
  have own: "g (pre @ [c]) f = (g pre f)\<lparr>decoratedClasses := decoratedClasses (g pre f) @ [c]\<rparr>"
    by (simp add: g_def f_def)
  have fc: "getSourceFile (decl c) = f"
    by (simp add: f_def fileOf_def)
  have A: "addClass (map (\<lambda>k. (k, g pre k)) ks) c = Inr (map (\<lambda>k. (k, g (pre @ [c]) k)) (firstSeen (map fileOf (pre @ [c]))))"
  proof (cases "f \<in> set ks")
    case True
    then have look: "map_of (map (\<lambda>k. (k, g pre k)) ks) f = Some (g pre f)"
      by (simp add: map_of_keyed)
    have keys: "firstSeen (map fileOf (pre @ [c])) = ks"
      using True ks(1) by (simp add: firstSeen_snoc ks_def f_def)
    have "AList.update f ((g pre f)\<lparr>decoratedClasses := decoratedClasses (g pre f) @ [c]\<rparr>)
            (map (\<lambda>k. (k, g pre k)) ks) = map (\<lambda>k. (k, g (pre @ [c]) k)) ks"
      using True ks(2) other own by (simp add: update_present cong: map_cong)
    with look keys show ?thesis
      by (simp add: addClass_def Let_def fc)
  next
    case False
    then have look: "map_of (map (\<lambda>k. (k, g pre k)) ks) f = None"
      by (simp add: map_of_keyed)
    have keys: "firstSeen (map fileOf (pre @ [c])) = ks @ [f]"
      using False ks(1) by (simp add: firstSeen_snoc ks_def f_def)
    have "filter (\<lambda>c. fileOf c = f) pre = []"
      using False ks(1) unfolding filter_empty_conv by (metis imageI)
    then have empty: "g pre f = \<lparr>sourceFile = f, decoratedClasses = []\<rparr>"
      by (simp add: g_def)
    have look1: "map_of (AList.update f (g pre f) (map (\<lambda>k. (k, g pre k)) ks)) f = Some (g pre f)"
      by (simp add: AList.update_conv)
    have "AList.update f ((g pre f)\<lparr>decoratedClasses := decoratedClasses (g pre f) @ [c]\<rparr>)
            (AList.update f (g pre f) (map (\<lambda>k. (k, g pre k)) ks))
          = AList.update f ((g pre f)\<lparr>decoratedClasses := decoratedClasses (g pre f) @ [c]\<rparr>)
              (map (\<lambda>k. (k, g pre k)) ks)"
      by (rule AList.update_last)
    also have "\<dots> = map (\<lambda>k. (k, g pre k)) ks @ [(f, g (pre @ [c]) f)]"
      using False by (simp add: own update_fresh)
    also have "\<dots> = map (\<lambda>k. (k, g (pre @ [c]) k)) (ks @ [f])"
      using False other by (simp cong: map_cong) metis
    finally have upd: "AList.update f ((g pre f)\<lparr>decoratedClasses := decoratedClasses (g pre f) @ [c]\<rparr>)
            (AList.update f (g pre f) (map (\<lambda>k. (k, g pre k)) ks))
          = map (\<lambda>k. (k, g (pre @ [c]) k)) (ks @ [f])" .
    show ?thesis
      unfolding addClass_def Let_def fc empty [symmetric]
      using look look1 upd keys by simp
  qed
  then show ?thesis by (simp add: M ks_def)
qed

lemma forEachE_addClass:
  "forEachE addClass (keyed (groupByFile pre)) cs = Inr (keyed (groupByFile (pre @ cs)))"
proof (induction cs arbitrary: pre)
  case Nil
  then show ?case by simp
next
  case (Cons c cs)
  have "forEachE addClass (keyed (groupByFile pre)) (c # cs) =
        forEachE addClass (keyed (groupByFile (pre @ [c]))) cs"
    by (simp add: addClass_groupByFile)
  also have "\<dots> = Inr (keyed (groupByFile ((pre @ [c]) @ cs)))"
    by (rule Cons.IH)
  finally show ?case by simp
qed

lemma parseFile_groupByFile:
  "parseFile chk host entryPoint =
     (case getSymbolAtLocation chk (SourceFileNode entryPoint) of
        None \<Rightarrow> Inr []
      | Some moduleSymbol \<Rightarrow>
          (case decoratedClassesOf chk host moduleSymbol of
             Inl e \<Rightarrow> Inl e
           | Inr cs \<Rightarrow> Inr (groupByFile cs)))"
proof -
  have "forEachE addClass [] cs = Inr (keyed (groupByFile cs))" for cs :: "'a ParsedClass list"
    using forEachE_addClass [of "[]" cs] by (simp add: keyed_def groupByFile_def firstSeen_def)
  moreover have "map snd (keyed pfs) = pfs" for pfs :: "'a ParsedFile list"
    by (simp add: keyed_def comp_def)
  ultimately show ?thesis
    by (simp add: parseFile_def split: option.splits sum.splits)
qed

section \<open>The decorated classes of a module\<close>

lemma mapE_Inr_iff: "mapE f xs = Inr ys \<longleftrightarrow> list_all2 (\<lambda>x y. f x = Inr y) xs ys"
proof
  show "mapE f xs = Inr ys \<Longrightarrow> list_all2 (\<lambda>x y. f x = Inr y) xs ys"
    by (induction xs arbitrary: ys) (auto split: sum.splits)
  show "list_all2 (\<lambda>x y. f x = Inr y) xs ys \<Longrightarrow> mapE f xs = Inr ys"
    by (induction rule: list_all2_induct) auto
qed


lemma parseClass_Inr_iff:
  "parseClass host d = Inr r \<longleftrightarrow>
     (host d = Inr None \<and> r = None) \<or>
     (\<exists>ds dc n. host d = Inr (Some ds) \<and> d = Some dc \<and> declName dc = Some n \<and>
        r = Some \<lparr>name = n, decl = dc, decorators = ds\<rparr>)"
  by (auto simp: parseClass_def split: sum.splits option.splits)


lemma survivors_decls:
  "list_all2 (\<lambda>d r. parseClass host d = Inr r) ds rs \<Longrightarrow>
   map (\<lambda>c. Some (decl c)) (List.map_filter (\<lambda>r. r) rs) = filter (\<lambda>d. host d \<noteq> Inr None) ds"
  by (induction rule: list_all2_induct) (auto simp: parseClass_Inr_iff)

lemma survivors_host:
  "list_all2 (\<lambda>d r. parseClass host d = Inr r) ds rs \<Longrightarrow> c \<in> set (List.map_filter (\<lambda>r. r) rs) \<Longrightarrow>
   host (Some (decl c)) = Inr (Some (decorators c)) \<and> declName (decl c) = Some (name c)"
  by (induction rule: list_all2_induct) (auto simp: parseClass_Inr_iff)

lemma decoratedClassesOf_decls:
  "decoratedClassesOf chk host m = Inr cs \<Longrightarrow>
   map (\<lambda>c. Some (decl c)) cs = filter (\<lambda>d. host d \<noteq> Inr None) (classDeclarations chk m)"
  by (auto simp: decoratedClassesOf_def mapE_Inr_iff survivors_decls split: sum.splits)

lemma decoratedClassesOf_host:
  "decoratedClassesOf chk host m = Inr cs \<Longrightarrow> c \<in> set cs \<Longrightarrow>
   host (Some (decl c)) = Inr (Some (decorators c)) \<and> declName (decl c) = Some (name c)"
  by (auto simp: decoratedClassesOf_def mapE_Inr_iff split: sum.splits dest: survivors_host)


lemma groupByFile_member:
  "pf \<in> set (groupByFile cs) \<Longrightarrow>
   decoratedClasses pf = filter (\<lambda>c. getSourceFile (decl c) = sourceFile pf) cs \<and>
   sourceFile pf \<in> (\<lambda>c. getSourceFile (decl c)) ` set cs"
  by (auto simp: groupByFile_def set_firstSeen)

lemma groupByFile_files:
  "map sourceFile (groupByFile cs) = firstSeen (map (\<lambda>c. getSourceFile (decl c)) cs)"
  by (simp add: groupByFile_def comp_def)

lemma parseFile_InrD:
  assumes "parseFile chk host e = Inr files"
  shows "(getSymbolAtLocation chk (SourceFileNode e) = None \<and> files = []) \<or>
         (\<exists>m cs. getSymbolAtLocation chk (SourceFileNode e) = Some m \<and>
            decoratedClassesOf chk host m = Inr cs \<and> files = groupByFile cs)"
  using assms by (auto simp: parseFile_groupByFile split: option.splits sum.splits)



section \<open>The example module\<close>

lemmas ex_syms = ex_clsA_def ex_clsB_def ex_clsC_def ex_clsU_def ex_clsE_def ex_clsN_def ex_clsX_def
  ex_clsR_def
  ex_fnF_def ex_aliasB_def ex_module_def

lemmas ex_parsed = ex_parsedA_def ex_parsedB_def ex_parsedC_def ex_parsedE_def

lemmas parse_defs = parseFile_def decoratedClassesOf_def classDeclarations_def exportClasses_def
  resolveExport_def parseClass_def addClass_def SymbolFlags_Alias_def SymbolFlags_Class_def
  List.map_filter_def

lemma ex_parse0:
  "parseFile ex_checker ex_host 0 =
     Inr [\<lparr>sourceFile = 1, decoratedClasses = [ex_parsedA, ex_parsedC]\<rparr>,
          \<lparr>sourceFile = 2, decoratedClasses = [ex_parsedB]\<rparr>]"
  by (simp add: parse_defs ex_checker_def ex_host_def ex_syms ex_parsed)

lemma ex_module0: "getSymbolAtLocation ex_checker (SourceFileNode 0) = Some (ex_module ''m0'')"
  by (simp add: ex_checker_def)

lemma ex_decorated0:
  "decoratedClassesOf ex_checker ex_host (ex_module ''m0'') = Inr [ex_parsedA, ex_parsedB, ex_parsedC]"
  by (simp add: parse_defs ex_checker_def ex_host_def ex_syms ex_parsed)

section \<open>What the parser returns\<close>

text \<open>
  Claim C1, as stated, fails. For the exported class \<open>E\<close> the host returns the empty
  array of decorators; the empty array is truthy, so the class is not discarded:
  \<open>parseFile\<close> returns a parsed file with the parsed class of \<open>E\<close>, which has no
  decorators.
\<close>

theorem parseFile_empty_decorators_counterexample:
  "getExportsOfModule ex_checker (ex_module ''m20'') = [ex_clsU, ex_clsE] \<and>
   ex_host (valueDeclaration ex_clsE) = Inr (Some []) \<and>
   parseFile ex_checker ex_host 20 = Inr [\<lparr>sourceFile = 3, decoratedClasses = [ex_parsedE]\<rparr>] \<and>
   decl ex_parsedE = ClassDeclaration 3 (Some ''E'') \<and>
   valueDeclaration ex_clsE = Some (ClassDeclaration 3 (Some ''E''))"
  by (simp add: parse_defs ex_checker_def ex_host_def ex_syms ex_parsed)

text \<open>
  Claim C1, amended. Every class for whose declaration
  \<open>getDecoratorsOfDeclaration\<close> returns \<open>null\<close> is discarded: its declaration is the
  declaration of no parsed class of any parsed file that \<open>parseFile\<close> returns.
\<close>

theorem parseFile_absent_discarded:
  assumes "parseFile chk host entryPoint = Inr files"
    and "host (Some d) = Inr None"
  shows "\<forall>pf\<in>set files. \<forall>c\<in>set (decoratedClasses pf). decl c \<noteq> d"
proof (intro ballI notI)
  fix pf c
  assume pf: "pf \<in> set files" and c: "c \<in> set (decoratedClasses pf)" and d: "decl c = d"
  from parseFile_InrD[OF assms(1)] pf obtain m cs where
    cs: "decoratedClassesOf chk host m = Inr cs" and files: "files = groupByFile cs"
    by auto
  from pf files c have "c \<in> set cs"
    by (auto dest: groupByFile_member)
  with cs have "host (Some (decl c)) = Inr (Some (decorators c))"
    by (simp add: decoratedClassesOf_host)
  with d assms(2) show False by simp
qed

text \<open>The class \<open>U\<close>, exported by the module of entry point 0, is in neither parsed file.\<close>

theorem parseFile_absent_discarded_witness:
  "ex_host (valueDeclaration ex_clsU) = Inr None \<and>
   valueDeclaration ex_clsU = Some (ClassDeclaration 1 (Some ''U'')) \<and>
   parseFile ex_checker ex_host 0 =
     Inr [\<lparr>sourceFile = 1, decoratedClasses = [ex_parsedA, ex_parsedC]\<rparr>,
          \<lparr>sourceFile = 2, decoratedClasses = [ex_parsedB]\<rparr>] \<and>
   ClassDeclaration 1 (Some ''U'') \<notin> decl ` set [ex_parsedA, ex_parsedC] \<and>
   ClassDeclaration 1 (Some ''U'') \<notin> decl ` set [ex_parsedB]"
proof -
  have h: "ex_host (Some (ClassDeclaration 1 (Some ''U''))) = Inr None"
    by (simp add: ex_host_def)
  have u: "valueDeclaration ex_clsU = Some (ClassDeclaration 1 (Some ''U''))"
    by (simp add: ex_clsU_def)
  from parseFile_absent_discarded [OF ex_parse0 h] h u ex_parse0 show ?thesis
    by auto
qed




text \<open>
  Claim C6. An export with the alias flag is replaced by its aliased symbol before the
  class test and the lookup of the decorators. So a module that re-exports a class
  through an alias and a module that exports the class itself at the same place give
  the same result of \<open>parseFile\<close>: the same parsed classes with the same decorators.
\<close>

theorem parseFile_alias:
  assumes "getSymbolAtLocation chk (SourceFileNode entry1) = Some module1"
    and "getSymbolAtLocation chk (SourceFileNode entry2) = Some module2"
    and "getExportsOfModule chk module1 = pre @ aliasSymbol # post"
    and "getExportsOfModule chk module2 = pre @ aliasedSymbol # post"
    and "SymbolFlags_Alias AND flags aliasSymbol \<noteq> 0"
    and "getAliasedSymbol chk aliasSymbol = aliasedSymbol"
    and "SymbolFlags_Alias AND flags aliasedSymbol = 0"
  shows "parseFile chk host entry1 = parseFile chk host entry2"
proof -
  from assms(5-7) have "resolveExport chk aliasSymbol = resolveExport chk aliasedSymbol"
    by (simp add: resolveExport_def)
  with assms(3,4) have "exportClasses chk module1 = exportClasses chk module2"
    by (simp add: exportClasses_def)
  then have "decoratedClassesOf chk host module1 = decoratedClassesOf chk host module2"
    by (simp add: decoratedClassesOf_def classDeclarations_def)
  with assms(1,2) show ?thesis
    by (simp add: parseFile_def)
qed

text \<open>
  Entry point 0 exports \<open>B\<close> through an alias and entry point 10 exports \<open>B\<close>
  itself; both give the parsed class of \<open>B\<close> with its decorator.
\<close>

theorem parseFile_alias_witness:
  "parseFile ex_checker ex_host 0 = parseFile ex_checker ex_host 10 \<and>
   parseFile ex_checker ex_host 10 =
     Inr [\<lparr>sourceFile = 1, decoratedClasses = [ex_parsedA, ex_parsedC]\<rparr>,
          \<lparr>sourceFile = 2, decoratedClasses = [ex_parsedB]\<rparr>]"
proof -
  have "parseFile ex_checker ex_host 0 = parseFile ex_checker ex_host 10"
  proof (rule parseFile_alias [where pre = "[ex_clsA, ex_fnF]" and post = "[ex_clsU, ex_clsC]"
        and aliasSymbol = ex_aliasB and aliasedSymbol = ex_clsB])
    show "getSymbolAtLocation ex_checker (SourceFileNode 0) = Some (ex_module ''m0'')"
      by (simp add: ex_checker_def)
    show "getSymbolAtLocation ex_checker (SourceFileNode 10) = Some (ex_module ''m10'')"
      by (simp add: ex_checker_def)
    show "getExportsOfModule ex_checker (ex_module ''m0'') = [ex_clsA, ex_fnF] @ ex_aliasB # [ex_clsU, ex_clsC]"
      by (simp add: ex_checker_def ex_module_def)
    show "getExportsOfModule ex_checker (ex_module ''m10'') = [ex_clsA, ex_fnF] @ ex_clsB # [ex_clsU, ex_clsC]"
      by (simp add: ex_checker_def ex_module_def)
    show "SymbolFlags_Alias AND flags ex_aliasB \<noteq> 0"
      by (simp add: SymbolFlags_Alias_def ex_aliasB_def)
    show "getAliasedSymbol ex_checker ex_aliasB = ex_clsB"
      by (simp add: ex_checker_def)
    show "SymbolFlags_Alias AND flags ex_clsB = 0"
      by (simp add: SymbolFlags_Alias_def ex_clsB_def)
  qed
  with ex_parse0 show ?thesis by simp
qed

text \<open>
  Claim C7. Every parsed file that \<open>parseFile\<close> returns has at least one parsed
  class: a parsed file is created only for the source file of a class that is then
  pushed to it.
\<close>

theorem parseFile_nonempty_files:
  assumes "parseFile chk host entryPoint = Inr files"
  shows "\<forall>pf\<in>set files. decoratedClasses pf \<noteq> []"
proof
  fix pf
  assume pf: "pf \<in> set files"
  from parseFile_InrD[OF assms] pf obtain cs where files: "files = groupByFile cs"
    by auto
  with pf have dc: "decoratedClasses pf = filter (\<lambda>c. getSourceFile (decl c) = sourceFile pf) cs"
    and "sourceFile pf \<in> (\<lambda>c. getSourceFile (decl c)) ` set cs"
    by (auto dest: groupByFile_member)
  then obtain c where "c \<in> set cs" "getSourceFile (decl c) = sourceFile pf"
    by auto
  then have "filter (\<lambda>c. getSourceFile (decl c) = sourceFile pf) cs \<noteq> []"
    unfolding filter_empty_conv by blast
  with dc show "decoratedClasses pf \<noteq> []"
    by simp
qed

theorem parseFile_nonempty_files_witness:
  "parseFile ex_checker ex_host 0 =
     Inr [\<lparr>sourceFile = 1, decoratedClasses = [ex_parsedA, ex_parsedC]\<rparr>,
          \<lparr>sourceFile = 2, decoratedClasses = [ex_parsedB]\<rparr>] \<and>
   [ex_parsedA, ex_parsedC] \<noteq> [] \<and> [ex_parsedB] \<noteq> []"
  using parseFile_nonempty_files [OF ex_parse0] ex_parse0 by simp

text \<open>
  Claim C8. Let \<open>cs\<close> be the decorated classes in the order of discovery: the value
  declarations of the exported class symbols, in the order in which the checker
  enumerates the exports, for which the host returns decorators. The parsed files that
  \<open>parseFile\<close> returns are in the order in which their source files are first seen in
  \<open>cs\<close>, and the decorated classes of each parsed file are the classes of \<open>cs\<close> from
  its source file, in the order of \<open>cs\<close>.
\<close>

theorem parseFile_discovery_order:
  assumes "getSymbolAtLocation chk (SourceFileNode entryPoint) = Some moduleSymbol"
    and "parseFile chk host entryPoint = Inr files"
  shows "\<exists>cs. decoratedClassesOf chk host moduleSymbol = Inr cs \<and>
           map (\<lambda>c. Some (decl c)) cs =
             filter (\<lambda>d. host d \<noteq> Inr None) (classDeclarations chk moduleSymbol) \<and>
           map sourceFile files = firstSeen (map (\<lambda>c. getSourceFile (decl c)) cs) \<and>
           (\<forall>pf\<in>set files.
              decoratedClasses pf = filter (\<lambda>c. getSourceFile (decl c) = sourceFile pf) cs)"
proof -
  from parseFile_InrD[OF assms(2)] assms(1) obtain cs where
    cs: "decoratedClassesOf chk host moduleSymbol = Inr cs" and files: "files = groupByFile cs"
    by auto
  have "map (\<lambda>c. Some (decl c)) cs =
          filter (\<lambda>d. host d \<noteq> Inr None) (classDeclarations chk moduleSymbol)"
    using cs by (rule decoratedClassesOf_decls)
  moreover have "map sourceFile files = firstSeen (map (\<lambda>c. getSourceFile (decl c)) cs)"
    by (simp add: files groupByFile_files)
  moreover have "\<forall>pf\<in>set files.
      decoratedClasses pf = filter (\<lambda>c. getSourceFile (decl c) = sourceFile pf) cs"
    by (simp add: files groupByFile_member)
  ultimately show ?thesis using cs by blast
qed

text \<open>
  The classes \<open>A\<close>, \<open>B\<close>, \<open>C\<close> are discovered in this order, in the files 1, 2, 1:
  the parsed files are those of 1 and 2, the first with \<open>A\<close> and \<open>C\<close>.
\<close>

theorem parseFile_discovery_order_witness:
  "decoratedClassesOf ex_checker ex_host (ex_module ''m0'') = Inr [ex_parsedA, ex_parsedB, ex_parsedC] \<and>
   map (\<lambda>c. getSourceFile (decl c)) [ex_parsedA, ex_parsedB, ex_parsedC] = [1, 2, 1] \<and>
   (\<exists>files. parseFile ex_checker ex_host 0 = Inr files \<and>
      map sourceFile files = [1, 2] \<and>
      map decoratedClasses files = [ex_parsedA, ex_parsedC] # [ex_parsedB] # [])"
proof -
  from parseFile_discovery_order [OF ex_module0 ex_parse0] obtain cs where
    cs: "decoratedClassesOf ex_checker ex_host (ex_module ''m0'') = Inr cs"
    and files: "map sourceFile [\<lparr>sourceFile = 1, decoratedClasses = [ex_parsedA, ex_parsedC]\<rparr>,
          \<lparr>sourceFile = 2, decoratedClasses = [ex_parsedB]\<rparr>] =
          firstSeen (map (\<lambda>c. getSourceFile (decl c)) cs)"
    and classes: "\<forall>pf\<in>set [\<lparr>sourceFile = 1, decoratedClasses = [ex_parsedA, ex_parsedC]\<rparr>,
          \<lparr>sourceFile = 2, decoratedClasses = [ex_parsedB]\<rparr>].
        decoratedClasses pf = filter (\<lambda>c. getSourceFile (decl c) = sourceFile pf) cs"
    by blast
  from cs have "cs = [ex_parsedA, ex_parsedB, ex_parsedC]"
    by (simp add: ex_decorated0)
  with cs files classes ex_parse0 show ?thesis
    by (simp add: ex_parsed)
qed

section \<open>The parser on a store and the parser on values\<close>

text \<open>
  A call of the parser on a store leaves every object that the store had before the
  call as it was, makes its parsed files at new addresses, and returns references whose
  worth in the store after the call is the result of \<open>parseFile\<close> on values.
\<close>

lemma update_new_key: "map_of m k = None \<Longrightarrow> AList.update k v m = m @ [(k, v)]"
  by (induction m) (auto split: if_splits)

lemma map_of_mapIn: "map_of (mapIn st m) k = map_option (\<lambda>a. the (fileAt st a)) (map_of m k)"
  by (simp add: mapIn_def map_of_map)

lemma fileAt_append: "a < length st \<Longrightarrow> fileAt (st @ xs) a = fileAt st a"
  by (simp add: fileAt_def nth_append)

lemma fileAt_new: "fileAt (st @ [FileObject pf]) (length st) = Some pf"
  by (simp add: fileAt_def)

lemma fileAt_update_same: "a < length st \<Longrightarrow> fileAt (st[a := FileObject pf]) a = Some pf"
  by (simp add: fileAt_def)

lemma fileAt_update_other: "b \<noteq> a \<Longrightarrow> fileAt (st[a := x]) b = fileAt st b"
  by (simp add: fileAt_def)

lemma fileAt_Some_less: "fileAt st a = Some pf \<Longrightarrow> a < length st"
  by (simp add: fileAt_def split: if_splits)

lemma fileAt_take: "take n st' = st \<Longrightarrow> a < length st \<Longrightarrow> fileAt st' a = fileAt st a"
  by (auto simp: fileAt_def)

lemma fileAt_append_Some: "fileAt st a = Some pf \<Longrightarrow> fileAt (st @ xs) a = Some pf"
  by (simp add: fileAt_def nth_append split: if_splits)

lemma fileAt_update_Some:
  "fileAt st b = Some pf \<Longrightarrow> \<exists>pf'. fileAt (st[a := FileObject x]) b = Some pf'"
  by (cases "b = a") (auto simp: fileAt_def split: if_splits)

lemma refs_mono:
  assumes "list_all (\<lambda>(k, a). n \<le> a \<and> fileAt st a \<noteq> None) m"
    and "\<And>a pf. fileAt st a = Some pf \<Longrightarrow> \<exists>pf'. fileAt st' a = Some pf'"
  shows "list_all (\<lambda>(k, a). n \<le> a \<and> fileAt st' a \<noteq> None) m"
  using assms(1)
proof (induction m)
  case Nil
  then show ?case by simp
next
  case (Cons p m)
  obtain k a where p: "p = (k, a)" by (cases p)
  with Cons.prems obtain pf where "n \<le> a" "fileAt st a = Some pf" by auto
  with assms(2) [of a pf] have "n \<le> a \<and> fileAt st' a \<noteq> None" by auto
  with Cons p show ?case by simp
qed

lemma mapIn_append:
  "list_all (\<lambda>(k, a). fileAt st a \<noteq> None) m \<Longrightarrow> mapIn (st @ xs) m = mapIn st m"
  by (induction m) (auto simp: mapIn_def fileAt_append dest: fileAt_Some_less)

lemma mapIn_update_other: "a \<notin> snd ` set m \<Longrightarrow> mapIn (st[a := x]) m = mapIn st m"
  by (induction m) (auto simp: mapIn_def fileAt_update_other)

lemma mapIn_update:
  "distinct (map snd m) \<Longrightarrow> map_of m k = Some a \<Longrightarrow> a < length st \<Longrightarrow>
   mapIn (st[a := FileObject pf]) m = AList.update k pf (mapIn st m)"
proof (induction m)
  case Nil
  then show ?case by simp
next
  case (Cons p m)
  obtain k' a' where p: "p = (k', a')" by (cases p)
  show ?case
  proof (cases "k' = k")
    case True
    with Cons.prems p have a: "a' = a" and "a \<notin> snd ` set m" by auto
    then have "mapIn (st[a := FileObject pf]) m = mapIn st m"
      by (simp add: mapIn_update_other)
    with True a p Cons.prems(3) show ?thesis
      by (simp add: mapIn_def fileAt_update_same)
  next
    case False
    with Cons.prems p have look: "map_of m k = Some a" and d: "distinct (map snd m)"
      by auto
    from look have "a \<in> snd ` set m"
      by (metis map_of_SomeD image_eqI snd_conv)
    with Cons.prems(1) p have "a' \<noteq> a" by auto
    with False p Cons.IH[OF d look Cons.prems(3)] show ?thesis
      by (simp add: mapIn_def fileAt_update_other)
  qed
qed

lemma addClassStore_step:
  assumes "refsOk st0 m st"
  shows "\<exists>m' st'. addClassStore m st c = (Inr m', st') \<and> refsOk st0 m' st' \<and>
           addClass (mapIn st m) c = Inr (mapIn st' m')"
proof -
  define f where "f = getSourceFile (decl c)"
  from assms have dist: "distinct (map snd m)" and pre: "take (length st0) st = st0"
    and len: "length st0 \<le> length st"
    and refs: "list_all (\<lambda>(k, a). length st0 \<le> a \<and> fileAt st a \<noteq> None) m"
    by (simp_all add: refsOk_def)
  from refs have refs': "list_all (\<lambda>(k, a). fileAt st a \<noteq> None) m"
    by (induction m) auto
  from refs have bound: "\<forall>a \<in> snd ` set m. a < length st"
    by (induction m) (auto dest: fileAt_Some_less)
  show ?thesis
  proof (cases "map_of m f")
    case None
    let ?E = "\<lparr>sourceFile = f, decoratedClasses = []\<rparr> :: 'a ParsedFile"
    let ?E' = "\<lparr>sourceFile = f, decoratedClasses = [c]\<rparr>"
    let ?st' = "st @ [FileObject ?E']"
    let ?m' = "m @ [(f, length st)]"
    have upd: "AList.update f (length st) m = ?m'"
      using None by (rule update_new_key)
    have look1: "map_of ?m' f = Some (length st)"
      using None by (simp add: map_add_def)
    have push: "pushClass (st @ [FileObject ?E]) (length st) c = Inr ?st'"
      by (simp add: pushClass_def)
    have run: "addClassStore m st c = (Inr ?m', ?st')"
      using None look1 push
      by (simp add: addClassStore_def Let_def f_def [symmetric] newParsedFile_def upd
          del: map_of_append)
    have "length st \<notin> snd ` set m"
      using bound by auto
    moreover have "list_all (\<lambda>(k, a). length st0 \<le> a \<and> fileAt ?st' a \<noteq> None) m"
      using refs by (rule refs_mono) (simp add: fileAt_append_Some)
    ultimately have ok: "refsOk st0 ?m' ?st'"
      using dist pre len by (simp add: refsOk_def fileAt_new)
    have pnone: "map_of (mapIn st m) f = None"
      using None by (simp add: map_of_mapIn)
    have "AList.update f ?E' (AList.update f ?E (mapIn st m)) = AList.update f ?E' (mapIn st m)"
      by (rule AList.update_last)
    also have "\<dots> = mapIn st m @ [(f, ?E')]"
      using pnone by (rule update_new_key)
    also have "\<dots> = mapIn ?st' ?m'"
      using mapIn_append [OF refs', of "[FileObject ?E']"]
      by (simp add: mapIn_def fileAt_new)
    finally have "addClass (mapIn st m) c = Inr (mapIn ?st' ?m')"
      using pnone by (simp add: addClass_def Let_def f_def [symmetric] AList.update_conv)
    with run ok show ?thesis by blast
  next
    case (Some a)
    then have mem: "(f, a) \<in> set m" by (rule map_of_SomeD)
    with refs obtain pf where pf: "fileAt st a = Some pf" and a0: "length st0 \<le> a"
      by (auto simp: list_all_iff)
    then have a: "a < length st" and obj: "st ! a = FileObject pf"
      by (auto simp: fileAt_def split: if_splits obj.splits)
    let ?pf' = "pf\<lparr>decoratedClasses := decoratedClasses pf @ [c]\<rparr>"
    let ?st' = "st[a := FileObject ?pf']"
    have run: "addClassStore m st c = (Inr m, ?st')"
      using Some a obj
      by (simp add: addClassStore_def Let_def f_def [symmetric] pushClass_def)
    have "list_all (\<lambda>(k, b). length st0 \<le> b \<and> fileAt ?st' b \<noteq> None) m"
      using refs by (rule refs_mono) (rule fileAt_update_Some)
    then have ok: "refsOk st0 m ?st'"
      using dist pre len a0 by (simp add: refsOk_def)
    have "map_of (mapIn st m) f = Some pf"
      using Some pf by (simp add: map_of_mapIn)
    moreover have "AList.update f ?pf' (mapIn st m) = mapIn ?st' m"
      using mapIn_update [OF dist Some a] by simp
    ultimately have "addClass (mapIn st m) c = Inr (mapIn ?st' m)"
      by (simp add: addClass_def Let_def f_def [symmetric])
    with run ok show ?thesis by blast
  qed
qed

lemma forEachStore_addClassStore:
  "refsOk st0 m st \<Longrightarrow>
   \<exists>m' st'. forEachStore addClassStore m st cs = (Inr m', st') \<and> refsOk st0 m' st' \<and>
     forEachE addClass (mapIn st m) cs = Inr (mapIn st' m')"
proof (induction cs arbitrary: m st)
  case Nil
  then show ?case by simp
next
  case (Cons c cs)
  from addClassStore_step [OF Cons.prems, of c] obtain m1 st1 where
    step: "addClassStore m st c = (Inr m1, st1)" and ok: "refsOk st0 m1 st1"
    and pure: "addClass (mapIn st m) c = Inr (mapIn st1 m1)"
    by blast
  from Cons.IH [OF ok] obtain m' st' where
    "forEachStore addClassStore m1 st1 cs = (Inr m', st')" "refsOk st0 m' st'"
    "forEachE addClass (mapIn st1 m1) cs = Inr (mapIn st' m')"
    by blast
  with step pure show ?case by simp
qed

lemma map_fileAt_refs:
  "list_all (\<lambda>(k, a). length st0 \<le> a \<and> fileAt st a \<noteq> None) m \<Longrightarrow>
   map (fileAt st) (map snd m) = map Some (map snd (mapIn st m))"
  by (induction m) (auto simp: mapIn_def)

lemma parseFileStore_parseFile:
  assumes "parseFileStore chk host st entryPoint = (r, st')"
  shows "resultIn st' r = map_sum id (map Some) (parseFile chk host entryPoint)"
    and "take (length st) st' = st"
    and "length st \<le> length st'"
    and "case r of Inl e \<Rightarrow> True | Inr as \<Rightarrow> list_all (\<lambda>a. length st \<le> a \<and> a < length st') as"
proof -
  have all: "resultIn st' r = map_sum id (map Some) (parseFile chk host entryPoint) \<and>
        take (length st) st' = st \<and> length st \<le> length st' \<and>
        (case r of Inl e \<Rightarrow> True | Inr as \<Rightarrow> list_all (\<lambda>a. length st \<le> a \<and> a < length st') as)"
  proof (cases "getSymbolAtLocation chk (SourceFileNode entryPoint)")
    case None
    with assms show ?thesis
      by (auto simp: parseFileStore_def parseFile_def resultIn_def)
  next
    case (Some moduleSymbol)
    show ?thesis
    proof (cases "decoratedClassesOf chk host moduleSymbol")
      case (Inl e)
      with Some assms show ?thesis
        by (auto simp: parseFileStore_def parseFile_def resultIn_def)
    next
      case (Inr cs)
      have "refsOk st [] st" by (simp add: refsOk_def)
      from forEachStore_addClassStore [OF this, of cs] obtain m' st1 where
        run: "forEachStore addClassStore [] st cs = (Inr m', st1)" and ok: "refsOk st m' st1"
        and pure: "forEachE addClass [] cs = Inr (mapIn st1 m')"
        by (auto simp: mapIn_def)
      from run Some Inr assms have r: "r = Inr (map snd m')" and st': "st' = st1"
        by (simp_all add: parseFileStore_def)
      from ok have refs: "list_all (\<lambda>(k, a). length st \<le> a \<and> fileAt st1 a \<noteq> None) m'"
        by (simp add: refsOk_def)
      then have "list_all (\<lambda>a. length st \<le> a \<and> a < length st1) (map snd m')"
        by (induction m') (auto dest: fileAt_Some_less)
      moreover have "resultIn st1 (Inr (map snd m')) =
          map_sum id (map Some) (parseFile chk host entryPoint)"
        using Some Inr pure map_fileAt_refs [OF refs]
        by (simp add: parseFile_def resultIn_def)
      ultimately show ?thesis
        using ok r st' by (simp add: refsOk_def)
    qed
  qed
  from all show "resultIn st' r = map_sum id (map Some) (parseFile chk host entryPoint)"
    and "take (length st) st' = st" and "length st \<le> length st'"
    and "case r of Inl e \<Rightarrow> True | Inr as \<Rightarrow> list_all (\<lambda>a. length st \<le> a \<and> a < length st') as"
    by simp_all
qed

lemma resultIn_later:
  assumes "take (length st1) st2 = st1"
    and "case r of Inl e \<Rightarrow> True | Inr as \<Rightarrow> list_all (\<lambda>a. length st \<le> a \<and> a < length st1) as"
  shows "resultIn st2 r = resultIn st1 r"
proof (cases r)
  case (Inl e)
  then show ?thesis by (simp add: resultIn_def)
next
  case (Inr as)
  with assms(2) have "list_all (\<lambda>a. a < length st1) as"
    by (simp add: list_all_iff)
  then have "map (fileAt st2) as = map (fileAt st1) as"
    using assms(1) by (induction as) (auto simp: fileAt_take)
  with Inr show ?thesis by (simp add: resultIn_def)
qed

text \<open>
  Claim C9. Take two calls of \<open>parseFile\<close> with the same checker snapshot, the same
  host and the same entry point, each from any store of objects. Their results are
  structurally equal: the parsed files that the returned references refer to, or the
  failure, are the same. Neither call changes an object that was in the store before
  it, whether a parsed file of an earlier call or an object of another kind, such as a
  node of the tree or a symbol: the store before the call is the initial part of the
  store after it. And when the second call starts from the store that the first one
  left, the result of the first call is still worth the same afterwards. The nodes and
  symbols that the checker hands out are values of the snapshot, since the source
  assigns to no property of them.
\<close>

theorem parseFile_two_invocations:
  assumes "parseFileStore chk host sa entryPoint = (ra, sa')"
    and "parseFileStore chk host sb entryPoint = (rb, sb')"
  shows "resultIn sb' rb = resultIn sa' ra
       \<and> take (length sa) sa' = sa
       \<and> take (length sb) sb' = sb
       \<and> (sb = sa' \<longrightarrow> resultIn sb' ra = resultIn sa' ra)"
proof -
  note first = parseFileStore_parseFile [OF assms(1)]
  note second = parseFileStore_parseFile [OF assms(2)]
  from first(1) second(1) have "resultIn sb' rb = resultIn sa' ra"
    by simp
  moreover have "resultIn sb' ra = resultIn sa' ra" if "sb = sa'"
    using second(2) first(4) unfolding that by (rule resultIn_later)
  ultimately show ?thesis
    using first(2) second(2) by simp
qed

text \<open>
  Two calls for entry point 0, the second from the store of the first: the references
  2, 3 and then 4, 5, to parsed files with the same content.
\<close>

theorem parseFile_two_invocations_witness:
  "parseFileStore ex_checker ex_host ex_store 0 = (Inr [2, 3], ex_store1) \<and>
   parseFileStore ex_checker ex_host ex_store1 0 = (Inr [4, 5], ex_store2) \<and>
   resultIn ex_store2 (Inr [4, 5]) = resultIn ex_store1 (Inr [2, 3]) \<and>
   resultIn ex_store2 (Inr [2, 3]) = resultIn ex_store1 (Inr [2, 3]) \<and>
   take (length ex_store) ex_store1 = ex_store \<and>
   take (length ex_store1) ex_store2 = ex_store1"
proof -
  have cs: "decoratedClassesOf ex_checker ex_host (ex_module ''m0'') =
      Inr [ex_parsedA, ex_parsedB, ex_parsedC]"
    by (simp add: decoratedClassesOf_def classDeclarations_def exportClasses_def
      resolveExport_def parseClass_def SymbolFlags_Alias_def SymbolFlags_Class_def
      List.map_filter_def ex_checker_def ex_host_def
      ex_clsA_def ex_clsB_def ex_clsC_def ex_clsU_def ex_fnF_def ex_aliasB_def ex_module_def
      ex_parsedA_def ex_parsedB_def ex_parsedC_def)
  have files: "getSourceFile (decl ex_parsedA) = 1" "getSourceFile (decl ex_parsedB) = 2"
    "getSourceFile (decl ex_parsedC) = 1"
    by (simp_all add: ex_parsedA_def ex_parsedB_def ex_parsedC_def)
  have m0: "getSymbolAtLocation ex_checker (SourceFileNode 0) = Some (ex_module ''m0'')"
    by (simp add: ex_checker_def)
  have run1: "parseFileStore ex_checker ex_host ex_store 0 = (Inr [2, 3], ex_store1)"
    by (simp add: parseFileStore_def m0 cs addClassStore_def newParsedFile_def pushClass_def files
        ex_store_def ex_store1_def)
  have run2: "parseFileStore ex_checker ex_host ex_store1 0 = (Inr [4, 5], ex_store2)"
    by (simp add: parseFileStore_def m0 cs addClassStore_def newParsedFile_def pushClass_def files
        ex_store_def ex_store1_def ex_store2_def)
  from parseFile_two_invocations [OF run1 run2] run1 run2 show ?thesis
    by simp
qed

end
